theory Spec2Isabelle
  imports Main
begin

section \<open>The authentication state container\<close>

text \<open>
  The repository shows one small state container three times: a context provider built on
  two \<^verbatim>\<open>useState\<close> cells, a context provider built on \<^verbatim>\<open>useReducer\<close>, and a Zustand
  store. All three hold the same two data fields and expose the same two operations,
  \<^verbatim>\<open>login(userData)\<close> and \<^verbatim>\<open>logout()\<close>.
\<close>

subsection \<open>Data model (AuthTypes.ts)\<close>

text \<open>
  \<^verbatim>\<open>interface User { id: string; name: string; email: string; }\<close>
  The field \<^verbatim>\<open>id\<close> is written \<open>id'\<close>, since \<open>id\<close> is the identity function of HOL.
\<close>

record User =
  id' :: string
  name :: string
  email :: string

text \<open>
  \<^verbatim>\<open>interface AuthState { isLoggedIn: boolean; user: User | null; }\<close>
  with \<open>None\<close> for \<^verbatim>\<open>null\<close>.
\<close>

record AuthState =
  isLoggedIn :: bool
  user :: "User option"

definition initialState :: AuthState where
  "initialState = \<lparr>isLoggedIn = False, user = None\<rparr>"

text \<open>
  An action is the object the reducer receives at run time: a \<^verbatim>\<open>type\<close> tag and a
  \<^verbatim>\<open>payload\<close> that may be missing. The declared type is the union
  \<^verbatim>\<open>LoginAction | LogoutAction\<close>, whose two shapes are the two constants below; the
  record is wider than the union so that the \<^verbatim>\<open>default\<close> branch of the reducer can be
  reached in the model as it can be at run time.
\<close>

record AuthAction =
  type :: string
  payload :: "User option"

definition LoginAction :: "User \<Rightarrow> AuthAction" where
  "LoginAction userData = \<lparr>type = ''LOGIN'', payload = Some userData\<rparr>"

definition LogoutAction :: AuthAction where
  "LogoutAction = \<lparr>type = ''LOGOUT'', payload = None\<rparr>"

text \<open>
  \<^verbatim>\<open>LoginAction\<close> declares \<^verbatim>\<open>payload: User\<close> as a required field: a well-typed action
  tagged \<^verbatim>\<open>LOGIN\<close> carries its payload.
\<close>

definition hasRequiredPayload :: "AuthAction \<Rightarrow> bool" where
  "hasRequiredPayload action =
     (if type action = ''LOGIN'' then payload action \<noteq> None else True)"

subsection \<open>The reducer variant (useReducer/AuthProvider.tsx)\<close>

text \<open>
  \<^verbatim>\<open>switch (action.type)\<close> with the cases \<^verbatim>\<open>"LOGIN"\<close>, \<^verbatim>\<open>"LOGOUT"\<close> and \<^verbatim>\<open>default\<close>.
  The spread \<^verbatim>\<open>...state\<close> followed by the two fields is a record update.
\<close>

definition authReducer :: "AuthState \<Rightarrow> AuthAction \<Rightarrow> AuthState" where
  "authReducer state action =
     (if type action = ''LOGIN'' then state\<lparr>isLoggedIn := True, user := payload action\<rparr>
      else if type action = ''LOGOUT'' then state\<lparr>isLoggedIn := False, user := None\<rparr>
      else state)"

text \<open>
  The errors a dispatch may report according to the specification. Neither the reducer
  nor any of the providers or the store has a \<^verbatim>\<open>throw\<close> statement (the only one of the
  source is in the consumer \<^verbatim>\<open>ProfileIcon\<close>, for a missing provider), so none of them is
  ever constructed below.
\<close>

datatype DispatchError = InvalidTransitionRequest | UnknownTransitionKind | ReentrantDispatch

text \<open>
  \<^verbatim>\<open>const [state, dispatch] = useReducer(authReducer, initialState)\<close>: a dispatch replaces
  the state by the reducer's result. \<open>Inl e\<close> stands for a dispatch that reports \<open>e\<close> and
  keeps the state it was given; \<open>Inr s\<close> for one that returns normally with \<open>s\<close> as the
  state read afterwards.
\<close>

definition dispatch :: "AuthAction \<Rightarrow> AuthState \<Rightarrow> DispatchError + AuthState" where
  "dispatch action state = Inr (authReducer state action)"

primrec dispatchAll :: "AuthAction list \<Rightarrow> AuthState \<Rightarrow> DispatchError + AuthState" where
  "dispatchAll [] state = Inr state"
| "dispatchAll (action # actions) state =
     (case dispatch action state of
        Inl e \<Rightarrow> Inl e
      | Inr state' \<Rightarrow> dispatchAll actions state')"

definition login_useReducer :: "User \<Rightarrow> AuthState \<Rightarrow> DispatchError + AuthState" where
  "login_useReducer userData state = dispatch \<lparr>type = ''LOGIN'', payload = Some userData\<rparr> state"

definition logout_useReducer :: "AuthState \<Rightarrow> DispatchError + AuthState" where
  "logout_useReducer state = dispatch \<lparr>type = ''LOGOUT'', payload = None\<rparr> state"

subsection \<open>The useState variant (useState/AuthProvider.tsx)\<close>

text \<open>
  Two state cells, each with its setter. \<^verbatim>\<open>login\<close> and \<^verbatim>\<open>logout\<close> call both setters one
  after the other; React applies the two queued updates before the next render, so the
  state a consumer reads after the call is the composition of the two.
\<close>

definition setIsLoggedIn :: "bool \<Rightarrow> AuthState \<Rightarrow> AuthState" where
  "setIsLoggedIn b state = state\<lparr>isLoggedIn := b\<rparr>"

definition setUser :: "User option \<Rightarrow> AuthState \<Rightarrow> AuthState" where
  "setUser u state = state\<lparr>user := u\<rparr>"

definition login_useState :: "User \<Rightarrow> AuthState \<Rightarrow> AuthState" where
  "login_useState userData state = setUser (Some userData) (setIsLoggedIn True state)"

definition logout_useState :: "AuthState \<Rightarrow> AuthState" where
  "logout_useState state = setUser None (setIsLoggedIn False state)"

subsection \<open>The store variant (authStore.ts)\<close>

text \<open>
  Zustand's \<^verbatim>\<open>set\<close> merges a partial state into the current one: a field the partial
  names is replaced, any other field is kept. The store also holds the two functions
  \<^verbatim>\<open>login\<close> and \<^verbatim>\<open>logout\<close>; no call of \<^verbatim>\<open>set\<close> names them, so they stay what they are
  and only the two data fields are state here.
\<close>

record StorePartial =
  isLoggedIn_part :: "bool option"
  user_part :: "User option option"

definition set_store :: "StorePartial \<Rightarrow> AuthState \<Rightarrow> AuthState" where
  "set_store partial state =
     state\<lparr>isLoggedIn := (case isLoggedIn_part partial of None \<Rightarrow> isLoggedIn state | Some b \<Rightarrow> b),
           user := (case user_part partial of None \<Rightarrow> user state | Some u \<Rightarrow> u)\<rparr>"

definition login_zustand :: "User \<Rightarrow> AuthState \<Rightarrow> AuthState" where
  "login_zustand userData state =
     set_store \<lparr>isLoggedIn_part = Some True, user_part = Some (Some userData)\<rparr> state"

definition logout_zustand :: "AuthState \<Rightarrow> AuthState" where
  "logout_zustand state =
     set_store \<lparr>isLoggedIn_part = Some False, user_part = Some None\<rparr> state"

subsection \<open>The context interface (AuthContextType)\<close>

text \<open>
  Consumers reach the container through \<^verbatim>\<open>login(userData: User)\<close> and \<^verbatim>\<open>logout()\<close> only.
  A history of the container is a list of such calls.
\<close>

datatype AuthCall = Login User | Logout

fun call_useState :: "AuthCall \<Rightarrow> AuthState \<Rightarrow> AuthState" where
  "call_useState (Login userData) state = login_useState userData state"
| "call_useState Logout state = logout_useState state"

fun call_zustand :: "AuthCall \<Rightarrow> AuthState \<Rightarrow> AuthState" where
  "call_zustand (Login userData) state = login_zustand userData state"
| "call_zustand Logout state = logout_zustand state"

section \<open>The checkout form schema (forms/checkout/src/types/checkout.ts)\<close>

text \<open>
  The value handed to the schema: every field is a string or is absent (\<open>None\<close> for
  \<^verbatim>\<open>undefined\<close>). The field \<^verbatim>\<open>email\<close> is written \<open>email_address\<close>, since \<open>email\<close> is
  already a field of \<open>User\<close>.
\<close>

record CheckoutInput =
  fullName :: "string option"
  email_address :: "string option"
  phone :: "string option"
  streetAddress :: "string option"
  city :: "string option"
  zipCode :: "string option"
  country :: "string option"
  paymentMethod :: "string option"
  cardHolderName :: "string option"
  cardNumber :: "string option"
  expiryDate :: "string option"
  cvv :: "string option"

text \<open>\<^verbatim>\<open>z.string().min(n)\<close>: the field is a string of at least \<open>n\<close> characters.\<close>

definition z_string_min :: "nat \<Rightarrow> string option \<Rightarrow> bool" where
  "z_string_min n v = (case v of None \<Rightarrow> False | Some s \<Rightarrow> n \<le> length s)"

text \<open>
  \<^verbatim>\<open>z.string().email()\<close>: the field is a string that the validation library takes for an
  e-mail address. The library's test is not part of the repository; it is the parameter
  \<open>isEmail\<close>.
\<close>

definition z_string_email :: "(string \<Rightarrow> bool) \<Rightarrow> string option \<Rightarrow> bool" where
  "z_string_email isEmail v = (case v of None \<Rightarrow> False | Some s \<Rightarrow> isEmail s)"

text \<open>\<^verbatim>\<open>z.string().regex(/^[0-9]{5}$/)\<close>: exactly five decimal digits.\<close>

definition zipCodeRegex :: "string \<Rightarrow> bool" where
  "zipCodeRegex s = (length s = 5 \<and> list_all (\<lambda>c. c \<in> set ''0123456789'') s)"

definition z_string_regex :: "(string \<Rightarrow> bool) \<Rightarrow> string option \<Rightarrow> bool" where
  "z_string_regex re v = (case v of None \<Rightarrow> False | Some s \<Rightarrow> re s)"

text \<open>\<^verbatim>\<open>z.string().optional()\<close>: a string or absent, which is every value of the field.\<close>

definition z_string_optional :: "string option \<Rightarrow> bool" where
  "z_string_optional v = (case v of None \<Rightarrow> True | Some s \<Rightarrow> True)"

text \<open>The \<^verbatim>\<open>z.object({...})\<close> part of the schema, field by field in the source's order.\<close>

definition checkoutObject :: "(string \<Rightarrow> bool) \<Rightarrow> CheckoutInput \<Rightarrow> bool" where
  "checkoutObject isEmail data =
     (z_string_min 1 (fullName data) \<and>
      z_string_email isEmail (email_address data) \<and>
      z_string_min 10 (phone data) \<and>
      z_string_min 1 (streetAddress data) \<and>
      z_string_min 1 (city data) \<and>
      z_string_regex zipCodeRegex (zipCode data) \<and>
      z_string_min 1 (country data) \<and>
      z_string_min 1 (paymentMethod data) \<and>
      z_string_optional (cardHolderName data) \<and>
      z_string_optional (cardNumber data) \<and>
      z_string_optional (expiryDate data) \<and>
      z_string_optional (cvv data))"

text \<open>
  JavaScript truthiness of a string or \<^verbatim>\<open>undefined\<close>, and the operator \<^verbatim>\<open>&&\<close>, which
  returns its left operand when that is falsy and its right operand otherwise.
\<close>

definition truthy :: "string option \<Rightarrow> bool" where
  "truthy v = (case v of None \<Rightarrow> False | Some s \<Rightarrow> s \<noteq> [])"

definition js_and :: "string option \<Rightarrow> string option \<Rightarrow> string option" where
  "js_and a b = (if truthy a then b else a)"

text \<open>
  The callback of \<^verbatim>\<open>.refine\<close>. For \<^verbatim>\<open>"card"\<close> it returns the value of
  \<^verbatim>\<open>cardHolderName && cardNumber && expiryDate && cvv\<close>, which the library tests for
  truthiness; otherwise it returns \<^verbatim>\<open>true\<close>.
\<close>

definition cardDetailsRefinement :: "CheckoutInput \<Rightarrow> bool" where
  "cardDetailsRefinement data =
     (if paymentMethod data = Some ''card''
      then truthy (js_and (js_and (js_and (cardHolderName data) (cardNumber data))
                                  (expiryDate data))
                          (cvv data))
      else True)"

text \<open>An input is accepted when the object part and the refinement both pass.\<close>

definition checkoutSchema :: "(string \<Rightarrow> bool) \<Rightarrow> CheckoutInput \<Rightarrow> bool" where
  "checkoutSchema isEmail data = (checkoutObject isEmail data \<and> cardDetailsRefinement data)"

section \<open>Properties of the state container\<close>

subsection \<open>Auxiliary facts\<close>

lemma authReducer_login:
  "authReducer state \<lparr>type = ''LOGIN'', payload = p\<rparr> = \<lparr>isLoggedIn = True, user = p\<rparr>"
  by (simp add: authReducer_def)

lemma authReducer_logout:
  "authReducer state \<lparr>type = ''LOGOUT'', payload = p\<rparr> = \<lparr>isLoggedIn = False, user = None\<rparr>"
  by (simp add: authReducer_def)

lemma login_useState_eq:
  "login_useState userData state = \<lparr>isLoggedIn = True, user = Some userData\<rparr>"
  by (simp add: login_useState_def setUser_def setIsLoggedIn_def)

lemma logout_useState_eq:
  "logout_useState state = \<lparr>isLoggedIn = False, user = None\<rparr>"
  by (simp add: logout_useState_def setUser_def setIsLoggedIn_def)

lemma login_zustand_eq:
  "login_zustand userData state = \<lparr>isLoggedIn = True, user = Some userData\<rparr>"
  by (simp add: login_zustand_def set_store_def)

lemma logout_zustand_eq:
  "logout_zustand state = \<lparr>isLoggedIn = False, user = None\<rparr>"
  by (simp add: logout_zustand_def set_store_def)

lemma dispatch_logout: "dispatch LogoutAction s = Inr \<lparr>isLoggedIn = False, user = None\<rparr>"
  by (simp add: dispatch_def LogoutAction_def authReducer_logout)

lemma dispatch_login: "dispatch (LoginAction d) s = Inr \<lparr>isLoggedIn = True, user = Some d\<rparr>"
  by (simp add: dispatch_def LoginAction_def authReducer_login)

lemma login_useReducer_eq:
  "login_useReducer d s = Inr \<lparr>isLoggedIn = True, user = Some d\<rparr>"
  by (simp add: login_useReducer_def dispatch_def authReducer_login)

lemma logout_useReducer_eq:
  "logout_useReducer s = Inr \<lparr>isLoggedIn = False, user = None\<rparr>"
  by (simp add: logout_useReducer_def dispatch_def authReducer_logout)

lemma dispatchAll_logouts:
  "dispatchAll (replicate n LogoutAction) \<lparr>isLoggedIn = False, user = None\<rparr>
     = Inr \<lparr>isLoggedIn = False, user = None\<rparr>"
  by (induction n) (simp_all add: dispatch_logout)

lemma logout_zustand_funpow:
  "(logout_zustand ^^ n) \<lparr>isLoggedIn = False, user = None\<rparr> = \<lparr>isLoggedIn = False, user = None\<rparr>"
  by (induction n) (simp_all add: logout_zustand_eq)

lemma dispatchAll_invariant:
  "list_all hasRequiredPayload actions \<Longrightarrow> (user s \<noteq> None) = isLoggedIn s \<Longrightarrow>
   \<exists>s'. dispatchAll actions s = Inr s' \<and> (user s' \<noteq> None) = isLoggedIn s'"
proof (induction actions arbitrary: s)
  case Nil
  then show ?case by simp
next
  case (Cons a actions)
  from Cons.prems have a: "hasRequiredPayload a" and rest: "list_all hasRequiredPayload actions"
    by simp_all
  have "(user (authReducer s a) \<noteq> None) = isLoggedIn (authReducer s a)"
    using a Cons.prems(2) by (auto simp add: authReducer_def hasRequiredPayload_def split: if_splits)
  from Cons.IH[OF rest this] show ?case by (simp add: dispatch_def)
qed

lemma fold_useState_invariant:
  "(user s \<noteq> None) = isLoggedIn s \<Longrightarrow>
   (user (fold call_useState calls s) \<noteq> None) = isLoggedIn (fold call_useState calls s)"
proof (induction calls arbitrary: s)
  case Nil
  then show ?case by simp
next
  case (Cons c calls)
  have "(user (call_useState c s) \<noteq> None) = isLoggedIn (call_useState c s)"
    by (cases c) (simp_all add: login_useState_eq logout_useState_eq)
  from Cons.IH[OF this] show ?case by simp
qed

lemma fold_zustand_invariant:
  "(user s \<noteq> None) = isLoggedIn s \<Longrightarrow>
   (user (fold call_zustand calls s) \<noteq> None) = isLoggedIn (fold call_zustand calls s)"
proof (induction calls arbitrary: s)
  case Nil
  then show ?case by simp
next
  case (Cons c calls)
  have "(user (call_zustand c s) \<noteq> None) = isLoggedIn (call_zustand c s)"
    by (cases c) (simp_all add: login_zustand_eq logout_zustand_eq)
  from Cons.IH[OF this] show ?case by simp
qed

subsection \<open>Auxiliary facts about the checkout schema\<close>

lemma truthy_js_and: "truthy (js_and a b) = (truthy a \<and> truthy b)"
  by (simp add: js_and_def)

lemma truthy_Some: "truthy v = (\<exists>s. v = Some s \<and> s \<noteq> [])"
  by (cases v) (simp_all add: truthy_def)

lemma cardDetailsRefinement_card:
  "paymentMethod data = Some ''card'' \<Longrightarrow>
   cardDetailsRefinement data =
     (truthy (cardHolderName data) \<and> truthy (cardNumber data)
      \<and> truthy (expiryDate data) \<and> truthy (cvv data))"
  by (simp add: cardDetailsRefinement_def truthy_js_and)

lemma checkoutObject_card_fields:
  "checkoutObject isEmail (data\<lparr>cardHolderName := a, cardNumber := b, expiryDate := c, cvv := d\<rparr>)
     = checkoutObject isEmail data"
  by (simp add: checkoutObject_def z_string_optional_def split: option.splits)

subsection \<open>Establishing a session\<close>

text \<open>
  Claim C1. For every identity record \<open>d\<close> and every current state \<open>s\<close>, dispatching
  the establish request (the action \<^verbatim>\<open>LOGIN\<close> with payload \<open>d\<close>) returns normally and the
  state read afterwards is exactly \<^verbatim>\<open>{isLoggedIn: true, user: d}\<close>, in the reducer variant
  (through \<open>dispatch\<close> and through the provider's \<^verbatim>\<open>login\<close>) and in the store variant.
  The source makes no test on \<open>d\<close>, so this holds for every record, the structurally
  valid ones among them.
\<close>

theorem establish_sets_identity:
  "dispatch (LoginAction d) s = Inr \<lparr>isLoggedIn = True, user = Some d\<rparr>
   \<and> login_useReducer d s = Inr \<lparr>isLoggedIn = True, user = Some d\<rparr>
   \<and> login_zustand d s = \<lparr>isLoggedIn = True, user = Some d\<rparr>"
  by (simp add: dispatch_login login_useReducer_eq login_zustand_eq)

subsection \<open>Clearing a session\<close>

text \<open>
  Claim C2. From any state, dispatching the clear request (the action \<^verbatim>\<open>LOGOUT\<close>) gives
  the state \<^verbatim>\<open>{isLoggedIn: false, user: null}\<close>, and so does dispatching it any number
  \<open>Suc n\<close> of times in a row; the same holds for the provider's \<^verbatim>\<open>logout\<close> and for the
  store's \<^verbatim>\<open>logout\<close>.
\<close>

theorem clear_resets:
  "dispatch LogoutAction s = Inr \<lparr>isLoggedIn = False, user = None\<rparr>
   \<and> dispatchAll (replicate (Suc n) LogoutAction) s = Inr \<lparr>isLoggedIn = False, user = None\<rparr>
   \<and> logout_useReducer s = Inr \<lparr>isLoggedIn = False, user = None\<rparr>
   \<and> logout_zustand s = \<lparr>isLoggedIn = False, user = None\<rparr>
   \<and> (logout_zustand ^^ Suc n) s = \<lparr>isLoggedIn = False, user = None\<rparr>"
proof -
  have "(logout_zustand ^^ Suc n) s = (logout_zustand ^^ n) (logout_zustand s)"
    by (simp only: funpow_Suc_right o_apply)
  then have z: "(logout_zustand ^^ Suc n) s = \<lparr>isLoggedIn = False, user = None\<rparr>"
    by (simp only: logout_zustand_eq logout_zustand_funpow)
  have r: "dispatchAll (replicate (Suc n) LogoutAction) s = Inr \<lparr>isLoggedIn = False, user = None\<rparr>"
    by (simp add: dispatch_logout dispatchAll_logouts)
  show ?thesis using z r
    by (simp only: dispatch_logout logout_useReducer_eq logout_zustand_eq simp_thms)
qed

subsection \<open>The session invariant\<close>

text \<open>
  Claim C3. In every state reached from \<open>initialState\<close> by a sequence of dispatched
  actions, \<^verbatim>\<open>user\<close> is non-null exactly when \<^verbatim>\<open>isLoggedIn\<close> is true. The actions are
  those in which a \<^verbatim>\<open>LOGIN\<close> carries the payload its type requires (a transition request
  of kind establish always has its detail); actions of any other tag are allowed. The
  same invariant holds in the useState and in the store variant for every sequence of
  \<^verbatim>\<open>login\<close> and \<^verbatim>\<open>logout\<close> calls.
\<close>

theorem session_invariant:
  assumes "list_all hasRequiredPayload actions"
  shows "(\<exists>s. dispatchAll actions initialState = Inr s \<and> (user s \<noteq> None) = isLoggedIn s)
       \<and> (user (fold call_useState calls initialState) \<noteq> None)
            = isLoggedIn (fold call_useState calls initialState)
       \<and> (user (fold call_zustand calls initialState) \<noteq> None)
            = isLoggedIn (fold call_zustand calls initialState)"
proof -
  have init: "(user initialState \<noteq> None) = isLoggedIn initialState"
    by (simp add: initialState_def)
  show ?thesis
    using dispatchAll_invariant[OF assms init] fold_useState_invariant[OF init]
      fold_zustand_invariant[OF init]
    by blast
qed

text \<open>
  The invariant at a concrete history: log in, an action of unknown tag, log out, log in
  as somebody else.
\<close>

theorem session_invariant_witness:
  "list_all hasRequiredPayload
     [LoginAction \<lparr>id' = ''1'', name = ''Guest'', email = ''guest@example.com''\<rparr>,
      \<lparr>type = ''RESET'', payload = None\<rparr>, LogoutAction,
      LoginAction \<lparr>id' = ''2'', name = ''Ann'', email = ''ann@example.com''\<rparr>]
   \<and> (\<exists>s. dispatchAll
            [LoginAction \<lparr>id' = ''1'', name = ''Guest'', email = ''guest@example.com''\<rparr>,
             \<lparr>type = ''RESET'', payload = None\<rparr>, LogoutAction,
             LoginAction \<lparr>id' = ''2'', name = ''Ann'', email = ''ann@example.com''\<rparr>]
            initialState = Inr s
          \<and> (user s \<noteq> None) = isLoggedIn s
          \<and> s = \<lparr>isLoggedIn = True, user = Some \<lparr>id' = ''2'', name = ''Ann'', email = ''ann@example.com''\<rparr>\<rparr>)
   \<and> isLoggedIn (fold call_useState
         [Login \<lparr>id' = ''1'', name = ''Guest'', email = ''guest@example.com''\<rparr>] initialState)
   \<and> user (fold call_useState
         [Login \<lparr>id' = ''1'', name = ''Guest'', email = ''guest@example.com''\<rparr>] initialState) \<noteq> None"
  using session_invariant[of
     "[LoginAction \<lparr>id' = ''1'', name = ''Guest'', email = ''guest@example.com''\<rparr>,
      \<lparr>type = ''RESET'', payload = None\<rparr>, LogoutAction,
      LoginAction \<lparr>id' = ''2'', name = ''Ann'', email = ''ann@example.com''\<rparr>]"
     "[Login \<lparr>id' = ''1'', name = ''Guest'', email = ''guest@example.com''\<rparr>]"]
  by (simp add: hasRequiredPayload_def LoginAction_def LogoutAction_def dispatch_def
      authReducer_def initialState_def login_useState_eq)

subsection \<open>Establish requests with an invalid detail\<close>

text \<open>
  The reducer does not validate the payload. The record with empty id, empty name and
  empty address, dispatched in the initial state, is accepted: the dispatch reports no
  \<open>InvalidTransitionRequest\<close> and the state changes.
\<close>

theorem invalid_establish_counterexample:
  "dispatch (LoginAction \<lparr>id' = '''', name = '''', email = ''''\<rparr>) initialState
     = Inr \<lparr>isLoggedIn = True, user = Some \<lparr>id' = '''', name = '''', email = ''''\<rparr>\<rparr>
   \<and> dispatch (LoginAction \<lparr>id' = '''', name = '''', email = ''''\<rparr>) initialState
       \<noteq> Inl InvalidTransitionRequest
   \<and> \<lparr>isLoggedIn = True, user = Some \<lparr>id' = '''', name = '''', email = ''''\<rparr>\<rparr> \<noteq> initialState"
  by (simp add: dispatch_login initialState_def)

text \<open>
  Claim C4, as the code has it. An establish request whose detail has an empty id or an
  empty display name is not rejected: the dispatch reports no error at all and replaces
  the state by \<^verbatim>\<open>{isLoggedIn: true, user: detail}\<close>, as it does for any other detail.
\<close>

theorem invalid_establish_accepted:
  assumes "id' d = [] \<or> name d = []"
  shows "dispatch (LoginAction d) s = Inr \<lparr>isLoggedIn = True, user = Some d\<rparr>
       \<and> (\<forall>e. dispatch (LoginAction d) s \<noteq> Inl e)
       \<and> login_useReducer d s = Inr \<lparr>isLoggedIn = True, user = Some d\<rparr>"
  by (simp add: dispatch_login login_useReducer_eq)

text \<open>
  A detail with an empty id replaces the identity of a session that is already
  established.
\<close>

theorem invalid_establish_accepted_witness:
  "(id' \<lparr>id' = '''', name = ''Guest'', email = ''guest@example.com''\<rparr> = []
      \<or> name \<lparr>id' = '''', name = ''Guest'', email = ''guest@example.com''\<rparr> = [])
   \<and> dispatch (LoginAction \<lparr>id' = '''', name = ''Guest'', email = ''guest@example.com''\<rparr>)
         \<lparr>isLoggedIn = True, user = Some \<lparr>id' = ''7'', name = ''Ann'', email = ''ann@example.com''\<rparr>\<rparr>
       = Inr \<lparr>isLoggedIn = True,
              user = Some \<lparr>id' = '''', name = ''Guest'', email = ''guest@example.com''\<rparr>\<rparr>"
  using invalid_establish_accepted[of
      "\<lparr>id' = '''', name = ''Guest'', email = ''guest@example.com''\<rparr>"
      "\<lparr>isLoggedIn = True, user = Some \<lparr>id' = ''7'', name = ''Ann'', email = ''ann@example.com''\<rparr>\<rparr>"]
  by simp

subsection \<open>Requests of an unknown kind\<close>

text \<open>
  The \<^verbatim>\<open>default\<close> branch returns the state it was given and raises nothing: an action
  tagged \<^verbatim>\<open>RESET\<close> does not fail with \<open>UnknownTransitionKind\<close>.
\<close>

theorem unknown_kind_counterexample:
  "dispatch \<lparr>type = ''RESET'', payload = None\<rparr> initialState \<noteq> Inl UnknownTransitionKind"
  by (simp add: dispatch_def)

text \<open>
  Claim C5, as the code has it. Dispatching an action whose tag is neither \<^verbatim>\<open>LOGIN\<close> nor
  \<^verbatim>\<open>LOGOUT\<close> returns normally, reports no error, and leaves the state unchanged.
\<close>

theorem unknown_kind_ignored:
  assumes "type a \<noteq> ''LOGIN''" and "type a \<noteq> ''LOGOUT''"
  shows "dispatch a s = Inr s \<and> (\<forall>e. dispatch a s \<noteq> Inl e)"
  using assms by (simp add: dispatch_def authReducer_def)

text \<open>
  An unknown tag dispatched in an established session leaves that session as it is.
\<close>

theorem unknown_kind_ignored_witness:
  "type \<lparr>type = ''RESET'', payload = None\<rparr> \<noteq> ''LOGIN''
   \<and> type \<lparr>type = ''RESET'', payload = None\<rparr> \<noteq> ''LOGOUT''
   \<and> dispatch \<lparr>type = ''RESET'', payload = None\<rparr>
        \<lparr>isLoggedIn = True, user = Some \<lparr>id' = ''1'', name = ''Guest'', email = ''guest@example.com''\<rparr>\<rparr>
      = Inr \<lparr>isLoggedIn = True, user = Some \<lparr>id' = ''1'', name = ''Guest'', email = ''guest@example.com''\<rparr>\<rparr>"
  using unknown_kind_ignored[of "\<lparr>type = ''RESET'', payload = None\<rparr>"
      "\<lparr>isLoggedIn = True, user = Some \<lparr>id' = ''1'', name = ''Guest'', email = ''guest@example.com''\<rparr>\<rparr>"]
  by simp

subsection \<open>No partial transition\<close>

text \<open>
  Claim C6. No transition applies in part. For every action \<open>a\<close>, the dispatch either
  returns every state unchanged (neither field changes), or returns one and the same
  state \<open>t\<close> whatever the state before was: both fields are replaced together and nothing
  of the previous state, neither its flag nor its identity, survives into the new one.
  The store's \<^verbatim>\<open>login\<close> and \<^verbatim>\<open>logout\<close>, each a single \<^verbatim>\<open>set\<close> naming both fields, and
  the useState provider's \<^verbatim>\<open>login\<close> and \<^verbatim>\<open>logout\<close>, read after both setters have been
  applied, are full replacements in the same sense.
\<close>

theorem transition_atomic:
  "((\<forall>s. dispatch a s = Inr s) \<or> (\<exists>t. \<forall>s. dispatch a s = Inr t))
   \<and> (\<exists>t. \<forall>s. login_zustand d s = t) \<and> (\<exists>t. \<forall>s. logout_zustand s = t)
   \<and> (\<exists>t. \<forall>s. login_useState d s = t) \<and> (\<exists>t. \<forall>s. logout_useState s = t)"
proof -
  have reducer: "(\<forall>s. dispatch a s = Inr s) \<or> (\<exists>t. \<forall>s. dispatch a s = Inr t)"
  proof (cases "type a = ''LOGIN''")
    case True
    then have "\<forall>s. dispatch a s = Inr \<lparr>isLoggedIn = True, user = payload a\<rparr>"
      by (simp add: dispatch_def authReducer_def)
    then show ?thesis by blast
  next
    case notLogin: False
    show ?thesis
    proof (cases "type a = ''LOGOUT''")
      case True
      then have "\<forall>s. dispatch a s = Inr \<lparr>isLoggedIn = False, user = None\<rparr>"
        by (simp add: dispatch_def authReducer_def)
      then show ?thesis by blast
    next
      case False
      with notLogin have "\<forall>s. dispatch a s = Inr s"
        by (simp add: dispatch_def authReducer_def)
      then show ?thesis by blast
    qed
  qed
  have "\<forall>s. login_zustand d s = \<lparr>isLoggedIn = True, user = Some d\<rparr>"
    by (simp add: login_zustand_eq)
  then have z1: "\<exists>t. \<forall>s. login_zustand d s = t" by blast
  have "\<forall>s. logout_zustand s = \<lparr>isLoggedIn = False, user = None\<rparr>"
    by (simp add: logout_zustand_eq)
  then have z2: "\<exists>t. \<forall>s. logout_zustand s = t" by blast
  have "\<forall>s. login_useState d s = \<lparr>isLoggedIn = True, user = Some d\<rparr>"
    by (simp add: login_useState_eq)
  then have u1: "\<exists>t. \<forall>s. login_useState d s = t" by blast
  have "\<forall>s. logout_useState s = \<lparr>isLoggedIn = False, user = None\<rparr>"
    by (simp add: logout_useState_eq)
  then have u2: "\<exists>t. \<forall>s. logout_useState s = t" by blast
  from reducer z1 z2 u1 u2 show ?thesis by blast
qed

subsection \<open>Round trip\<close>

text \<open>
  Claim C7. From any state \<open>s\<close> and for any identity record \<open>d\<close>: clear, then establish
  with \<open>d\<close>, then clear again ends in exactly \<open>initialState\<close>, in the reducer variant and
  in the store variant.
\<close>

theorem clear_establish_clear:
  "dispatchAll [LogoutAction, LoginAction d, LogoutAction] s = Inr initialState
   \<and> logout_zustand (login_zustand d (logout_zustand s)) = initialState"
  by (simp add: dispatch_login dispatch_logout initialState_def logout_zustand_eq)

subsection \<open>The three variants agree\<close>

text \<open>
  Claim C8. For every state \<open>s\<close> and every user record \<open>d\<close>, the useState provider's
  \<^verbatim>\<open>login\<close> and \<^verbatim>\<open>logout\<close>, the reducer's \<^verbatim>\<open>LOGIN\<close> and \<^verbatim>\<open>LOGOUT\<close> cases (directly and
  through the provider's dispatch), and the store's \<^verbatim>\<open>login\<close> and \<^verbatim>\<open>logout\<close> produce equal
  states.
\<close>

theorem variants_agree:
  "login_useReducer d s = Inr (login_useState d s)
   \<and> login_zustand d s = login_useState d s
   \<and> authReducer s (LoginAction d) = login_useState d s
   \<and> logout_useReducer s = Inr (logout_useState s)
   \<and> logout_zustand s = logout_useState s
   \<and> authReducer s LogoutAction = logout_useState s"
  by (simp add: login_useReducer_eq logout_useReducer_eq login_zustand_eq logout_zustand_eq
      login_useState_eq logout_useState_eq LoginAction_def LogoutAction_def
      authReducer_login authReducer_logout)

subsection \<open>Card details in the checkout schema\<close>

text \<open>
  Claim C10. The checkout schema accepts an input whose \<^verbatim>\<open>paymentMethod\<close> is \<^verbatim>\<open>"card"\<close>
  only if \<^verbatim>\<open>cardHolderName\<close>, \<^verbatim>\<open>cardNumber\<close>, \<^verbatim>\<open>expiryDate\<close> and \<^verbatim>\<open>cvv\<close> are all present
  and non-empty. For an input whose \<^verbatim>\<open>paymentMethod\<close> is anything else the refinement
  passes, and the schema's verdict is the same with the four fields absent: they are not
  required.
\<close>

theorem checkout_card_details:
  "(checkoutSchema isEmail data \<and> paymentMethod data = Some ''card'' \<longrightarrow>
      (\<exists>h n e c. cardHolderName data = Some h \<and> h \<noteq> [] \<and> cardNumber data = Some n \<and> n \<noteq> []
         \<and> expiryDate data = Some e \<and> e \<noteq> [] \<and> cvv data = Some c \<and> c \<noteq> []))
   \<and> (paymentMethod data \<noteq> Some ''card'' \<longrightarrow>
        cardDetailsRefinement data
        \<and> checkoutSchema isEmail
             (data\<lparr>cardHolderName := None, cardNumber := None, expiryDate := None, cvv := None\<rparr>)
           = checkoutSchema isEmail data)"
proof (intro conjI impI)
  assume "checkoutSchema isEmail data \<and> paymentMethod data = Some ''card''"
  then have "cardDetailsRefinement data" and "paymentMethod data = Some ''card''"
    by (simp_all add: checkoutSchema_def)
  then have "truthy (cardHolderName data)" "truthy (cardNumber data)"
    "truthy (expiryDate data)" "truthy (cvv data)"
    by (simp_all add: cardDetailsRefinement_card)
  then show "\<exists>h n e c. cardHolderName data = Some h \<and> h \<noteq> [] \<and> cardNumber data = Some n \<and> n \<noteq> []
         \<and> expiryDate data = Some e \<and> e \<noteq> [] \<and> cvv data = Some c \<and> c \<noteq> []"
    by (auto simp add: truthy_Some)
next
  assume other: "paymentMethod data \<noteq> Some ''card''"
  then show "cardDetailsRefinement data"
    by (simp add: cardDetailsRefinement_def)
  from other show "checkoutSchema isEmail
             (data\<lparr>cardHolderName := None, cardNumber := None, expiryDate := None, cvv := None\<rparr>)
           = checkoutSchema isEmail data"
    by (simp add: checkoutSchema_def checkoutObject_card_fields cardDetailsRefinement_def)
qed

text \<open>
  A card payment with all four details is accepted, the same input with an empty
  \<^verbatim>\<open>cvv\<close> is rejected, and a payment by another method is accepted with the four fields
  absent.
\<close>

theorem checkout_card_details_witness:
  "checkoutSchema (\<lambda>s. CHR ''@'' \<in> set s)
     \<lparr>fullName = Some ''Ann Lee'', email_address = Some ''ann@example.com'',
      phone = Some ''0123456789'', streetAddress = Some ''1 Main St'', city = Some ''Oslo'',
      zipCode = Some ''12345'', country = Some ''NO'', paymentMethod = Some ''card'',
      cardHolderName = Some ''Ann Lee'', cardNumber = Some ''4111111111111111'',
      expiryDate = Some ''12/30'', cvv = Some ''123''\<rparr>
   \<and> \<not> checkoutSchema (\<lambda>s. CHR ''@'' \<in> set s)
     \<lparr>fullName = Some ''Ann Lee'', email_address = Some ''ann@example.com'',
      phone = Some ''0123456789'', streetAddress = Some ''1 Main St'', city = Some ''Oslo'',
      zipCode = Some ''12345'', country = Some ''NO'', paymentMethod = Some ''card'',
      cardHolderName = Some ''Ann Lee'', cardNumber = Some ''4111111111111111'',
      expiryDate = Some ''12/30'', cvv = Some ''''\<rparr>
   \<and> paymentMethod
     \<lparr>fullName = Some ''Ann Lee'', email_address = Some ''ann@example.com'',
      phone = Some ''0123456789'', streetAddress = Some ''1 Main St'', city = Some ''Oslo'',
      zipCode = Some ''12345'', country = Some ''NO'', paymentMethod = Some ''paypal'',
      cardHolderName = None, cardNumber = None, expiryDate = None, cvv = None\<rparr>
       \<noteq> Some ''card''
   \<and> checkoutSchema (\<lambda>s. CHR ''@'' \<in> set s)
     \<lparr>fullName = Some ''Ann Lee'', email_address = Some ''ann@example.com'',
      phone = Some ''0123456789'', streetAddress = Some ''1 Main St'', city = Some ''Oslo'',
      zipCode = Some ''12345'', country = Some ''NO'', paymentMethod = Some ''paypal'',
      cardHolderName = None, cardNumber = None, expiryDate = None, cvv = None\<rparr>"
proof -
  let ?isEmail = "\<lambda>s. CHR ''@'' \<in> set s"
  let ?card = "\<lparr>fullName = Some ''Ann Lee'', email_address = Some ''ann@example.com'',
      phone = Some ''0123456789'', streetAddress = Some ''1 Main St'', city = Some ''Oslo'',
      zipCode = Some ''12345'', country = Some ''NO'', paymentMethod = Some ''card'',
      cardHolderName = Some ''Ann Lee'', cardNumber = Some ''4111111111111111'',
      expiryDate = Some ''12/30'', cvv = Some ''123''\<rparr>"
  let ?nocvv = "?card\<lparr>cvv := Some ''''\<rparr>"
  let ?paypal = "\<lparr>fullName = Some ''Ann Lee'', email_address = Some ''ann@example.com'',
      phone = Some ''0123456789'', streetAddress = Some ''1 Main St'', city = Some ''Oslo'',
      zipCode = Some ''12345'', country = Some ''NO'', paymentMethod = Some ''paypal'',
      cardHolderName = None, cardNumber = None, expiryDate = None, cvv = None\<rparr>"
  have obj: "checkoutObject ?isEmail ?card"
    by (simp add: checkoutObject_def z_string_min_def z_string_email_def z_string_regex_def
        zipCodeRegex_def z_string_optional_def)
  have accepted: "checkoutSchema ?isEmail ?card"
    using obj by (simp add: checkoutSchema_def cardDetailsRefinement_def js_and_def truthy_def)
  have details: "\<exists>h n e c. cardHolderName ?card = Some h \<and> h \<noteq> [] \<and> cardNumber ?card = Some n
      \<and> n \<noteq> [] \<and> expiryDate ?card = Some e \<and> e \<noteq> [] \<and> cvv ?card = Some c \<and> c \<noteq> []"
    using checkout_card_details[of ?isEmail ?card] accepted by simp
  have rejected: "\<not> checkoutSchema ?isEmail ?nocvv"
    using checkout_card_details[of ?isEmail ?nocvv] by auto
  have obj2: "checkoutObject ?isEmail ?paypal"
    by (simp add: checkoutObject_def z_string_min_def z_string_email_def z_string_regex_def
        zipCodeRegex_def z_string_optional_def)
  have other: "paymentMethod ?paypal \<noteq> Some ''card''" by simp
  have "cardDetailsRefinement ?paypal"
    using checkout_card_details[of ?isEmail ?paypal] other by blast
  with obj2 have accepted2: "checkoutSchema ?isEmail ?paypal"
    by (simp add: checkoutSchema_def)
  from accepted rejected other accepted2 show ?thesis by simp
qed

end
